theory Spec2Isabelle
  imports Main "HOL-Library.AList"
begin

section \<open>Go library functions used by storage/object.go\<close>

text \<open>
  Go strings are byte sequences; they are modelled as \<^typ>\<open>string\<close> (a list of 8-bit
  characters). A Go \<^verbatim>\<open>map[string]T\<close> is modelled as an association list with
  pairwise distinct keys: the list order stands for the (unspecified) order in which
  \<^verbatim>\<open>range\<close> visits the entries, \<^verbatim>\<open>m[k] = v\<close> is \<^const>\<open>AList.update\<close> and a lookup
  is \<^const>\<open>map_of\<close>.
\<close>

type_synonym 'v gomap = "(string \<times> 'v) list"

subsection \<open>Package strings\<close>

definition HasPrefix :: "string \<Rightarrow> string \<Rightarrow> bool" where
  "HasPrefix s p = (length p \<le> length s \<and> take (length p) s = p)"

definition TrimPrefix :: "string \<Rightarrow> string \<Rightarrow> string" where
  "TrimPrefix s p = (if HasPrefix s p then drop (length p) s else s)"

fun Join :: "string list \<Rightarrow> string \<Rightarrow> string" where
  "Join [] sep = []"
| "Join [a] sep = a"
| "Join (a # b # bs) sep = a @ sep @ Join (b # bs) sep"

text \<open>
  \<^verbatim>\<open>strings.Split(s, sep)\<close> for a separator of one byte (the only use in the source is
  with \<^verbatim>\<open>"/"\<close>): the scan cuts a piece at every occurrence of the separator; \<open>cur\<close> holds
  the bytes of the piece being read, in reverse.
\<close>

fun Split_from :: "string \<Rightarrow> char \<Rightarrow> string \<Rightarrow> string list" where
  "Split_from cur sep [] = [rev cur]"
| "Split_from cur sep (x # xs) =
     (if x = sep then rev cur # Split_from [] sep xs else Split_from (x # cur) sep xs)"

definition Split :: "string \<Rightarrow> char \<Rightarrow> string list" where
  "Split s sep = Split_from [] sep s"

subsection \<open>Package fmt: the verbs \<^verbatim>\<open>%d\<close> and \<^verbatim>\<open>%t\<close>\<close>

definition digit_char :: "nat \<Rightarrow> char" where
  "digit_char d = ''0123456789'' ! d"

fun show_nat :: "nat \<Rightarrow> string" where
  "show_nat n = (if n < 10 then [digit_char n] else show_nat (n div 10) @ [digit_char (n mod 10)])"

declare show_nat.simps [simp del]

definition Sprintf_d :: "int \<Rightarrow> string" where
  "Sprintf_d i = (if i < 0 then CHR ''-'' # show_nat (nat (- i)) else show_nat (nat i))"

definition Sprintf_t :: "bool \<Rightarrow> string" where
  "Sprintf_t b = (if b then ''true'' else ''false'')"

subsection \<open>Package strconv: Atoi\<close>

text \<open>
  \<^verbatim>\<open>strconv.Atoi\<close> on a platform whose \<^verbatim>\<open>int\<close> has 64 bits: an optional sign, then
  at least one decimal digit. \<open>ParseUint_from\<close> is the digit loop of \<^verbatim>\<open>ParseUint\<close>
  with its two overflow checks; the error is a \<^verbatim>\<open>*strconv.NumError\<close> naming the
  function, the input and the kind of failure.
\<close>

datatype errno = ErrSyntax | ErrRange

datatype 'e error =
    Errorf string
  | NumError string string errno
  | TransportError 'e

definition is_digit :: "char \<Rightarrow> bool" where
  "is_digit ch = (48 \<le> (of_char ch :: nat) \<and> (of_char ch :: nat) \<le> 57)"

fun ParseUint_from :: "nat \<Rightarrow> string \<Rightarrow> errno + nat" where
  "ParseUint_from n [] = Inr n"
| "ParseUint_from n (ch # s) =
     (if \<not> is_digit ch then Inl ErrSyntax
      else if n \<ge> 2 ^ 64 div 10 + 1 then Inl ErrRange
      else (let n1 = n * 10 + (of_char ch - 48) in
            if n1 > 2 ^ 64 - 1 then Inl ErrRange else ParseUint_from n1 s))"

definition Atoi :: "string \<Rightarrow> 'e error + int" where
  "Atoi s0 =
     (let neg = (s0 \<noteq> [] \<and> hd s0 = CHR ''-'');
          s = (if s0 \<noteq> [] \<and> (hd s0 = CHR ''-'' \<or> hd s0 = CHR ''+'') then tl s0 else s0)
      in if s = [] then Inl (NumError ''Atoi'' s0 ErrSyntax)
         else (case ParseUint_from 0 s of
                 Inl e \<Rightarrow> Inl (NumError ''Atoi'' s0 e)
               | Inr un \<Rightarrow>
                   if \<not> neg \<and> un \<ge> 2 ^ 63 then Inl (NumError ''Atoi'' s0 ErrRange)
                   else if neg \<and> un > 2 ^ 63 then Inl (NumError ''Atoi'' s0 ErrRange)
                   else Inr (if neg then - int un else int un)))"

subsection \<open>Package net/http: Header\<close>

text \<open>
  \<^verbatim>\<open>http.Header\<close> is \<^verbatim>\<open>map[string][]string\<close>. \<^verbatim>\<open>Header.Get\<close> looks the key up in
  its canonical form (first letter and every letter after a dash in upper case, the others
  in lower case; a key with a byte that is not a token byte is left as it is) and returns
  the first value, or the empty string when there is none.
\<close>

type_synonym Header = "string list gomap"

definition validHeaderFieldByte :: "char \<Rightarrow> bool" where
  "validHeaderFieldByte ch =
     (let n = (of_char ch :: nat) in
      n = 33 \<or> (35 \<le> n \<and> n \<le> 39) \<or> n = 42 \<or> n = 43 \<or> n = 45 \<or> n = 46 \<or>
      (48 \<le> n \<and> n \<le> 57) \<or> (65 \<le> n \<and> n \<le> 90) \<or> (94 \<le> n \<and> n \<le> 122) \<or>
      n = 124 \<or> n = 126)"

definition lower_case :: string where
  "lower_case = ''abcdefghijklmnopqrstuvwxyz''"

definition upper_case :: string where
  "upper_case = ''ABCDEFGHIJKLMNOPQRSTUVWXYZ''"

definition to_upper :: "char \<Rightarrow> char" where
  "to_upper ch = (case map_of (zip lower_case upper_case) ch of Some u \<Rightarrow> u | None \<Rightarrow> ch)"

definition to_lower :: "char \<Rightarrow> char" where
  "to_lower ch = (case map_of (zip upper_case lower_case) ch of Some l \<Rightarrow> l | None \<Rightarrow> ch)"

fun canonical_from :: "bool \<Rightarrow> string \<Rightarrow> string" where
  "canonical_from upper [] = []"
| "canonical_from upper (ch # s) =
     (if upper then to_upper ch # canonical_from (to_upper ch = CHR ''-'') s
      else to_lower ch # canonical_from (to_lower ch = CHR ''-'') s)"

definition CanonicalMIMEHeaderKey :: "string \<Rightarrow> string" where
  "CanonicalMIMEHeaderKey s = (if list_all validHeaderFieldByte s then canonical_from True s else s)"

definition Header_Get :: "Header \<Rightarrow> string \<Rightarrow> string" where
  "Header_Get h key =
     (case map_of h (CanonicalMIMEHeaderKey key) of
        None \<Rightarrow> []
      | Some [] \<Rightarrow> []
      | Some (v # vs) \<Rightarrow> v)"

record Response =
  Header :: Header

section \<open>storage/object.go: data\<close>

subsection \<open>Header constants\<close>

definition h_AcceptRanges :: string where "h_AcceptRanges = ''Accept-Ranges''"
definition h_ContentDisposition :: string where "h_ContentDisposition = ''Content-Disposition''"
definition h_ContentEncoding :: string where "h_ContentEncoding = ''Content-Encoding''"
definition h_ContentLength :: string where "h_ContentLength = ''Content-Length''"
definition h_ContentType :: string where "h_ContentType = ''Content-Type''"
definition h_CopyFrom :: string where "h_CopyFrom = ''X-Copy-From''"
definition h_Date :: string where "h_Date = ''Date''"
definition h_DeleteAt :: string where "h_DeleteAt = ''X-Delete-At''"
definition h_ETag :: string where "h_ETag = ''ETag''"
definition h_LastModified :: string where "h_LastModified = ''Last-Modified''"
definition h_Newest :: string where "h_Newest = ''X-Newest''"
definition h_ObjectManifest :: string where "h_ObjectManifest = ''X-Object-Manifest''"
definition h_Range :: string where "h_Range = ''Range''"
definition h_Timestamp :: string where "h_Timestamp = ''X-Timestamp''"
definition h_TransactionID :: string where "h_TransactionID = ''X-Trans-Id''"
definition h_TransferEncoding :: string where "h_TransferEncoding = ''Transfer-Encoding''"
definition h_MetadataPrefix :: string where "h_MetadataPrefix = ''X-Object-Meta-''"

subsection \<open>The structs\<close>

record ObjectInfo =
  ID :: string
  Name :: string
  AcceptRanges :: string
  Container :: string
  ContentDisposition :: string
  ContentEncoding :: string
  ContentLength :: int
  ContentType :: string
  Date :: string
  Etag :: string
  LastModified :: string
  DeleteAt :: int
  ObjectManifest :: string
  ObjectMetadata :: "string gomap"
  Timestamp :: string
  TransactionID :: string

text \<open>The zero value of \<^verbatim>\<open>var object ObjectInfo\<close> (a nil map reads as the empty map).\<close>

definition ObjectInfo_zero :: ObjectInfo where
  "ObjectInfo_zero =
     \<lparr>ObjectInfo.ID = [], Name = [], AcceptRanges = [], Container = [],
      ContentDisposition = [], ContentEncoding = [], ContentLength = 0, ContentType = [],
      Date = [], Etag = [], LastModified = [], DeleteAt = 0, ObjectManifest = [],
      ObjectMetadata = [], Timestamp = [], TransactionID = []\<rparr>"

text \<open>
  \<^verbatim>\<open>Body io.ReadSeeker\<close> is an interface value: \<open>None\<close> is nil, \<open>Some b\<close> a reader over
  the bytes \<open>b\<close>.
\<close>

record CreateObjectInput =
  Name :: string
  Body :: "string option"
  Container :: string
  ContentDisposition :: string
  ContentEncoding :: string
  ContentType :: string
  CopyFrom :: string
  DeleteAt :: int
  ObjectMetadata :: "string gomap"
  ETag :: string
  TransferEncoding :: string

record GetObjectInput =
  ID :: string
  Name :: string
  Container :: string
  Range' :: string
  Newest :: bool

record DeleteObjectInput =
  ID :: string
  Name :: string
  Container :: string

subsection \<open>The client and the network\<close>

text \<open>
  \<^verbatim>\<open>ObjectClient\<close> embeds \<^verbatim>\<open>StorageClient\<close>, whose methods \<^verbatim>\<open>getQualifiedName\<close>,
  \<^verbatim>\<open>createResourceBody\<close>, \<^verbatim>\<open>getResourceHeaders\<close> and \<^verbatim>\<open>deleteResource\<close> are
  defined in another file of the package. They are the fields of the client record, so
  every theorem holds for whatever these methods do. The three that issue a request act on
  the state \<open>'w\<close> of the outside world (the service); \<^verbatim>\<open>getResourceHeaders\<close> is handed a
  pointer to the object under construction and so also returns that object. The errors
  they return have the type \<open>'e\<close>.
\<close>

record ('e, 'w) ObjectClient =
  getQualifiedName :: "string \<Rightarrow> string"
  createResourceBody :: "string \<Rightarrow> string gomap \<Rightarrow> string option \<Rightarrow> 'w \<Rightarrow> 'e option \<times> 'w"
  getResourceHeaders ::
    "string \<Rightarrow> ObjectInfo \<Rightarrow> string gomap \<Rightarrow> 'w \<Rightarrow> ('e + Response \<times> ObjectInfo) \<times> 'w"
  deleteResource :: "string \<Rightarrow> 'w \<Rightarrow> 'e option \<times> 'w"

text \<open>
  The requests handed to the collaborator are recorded, in order, next to the state of the
  world: a write with its path, headers and body, a headers-only read with its path and
  headers, a deletion with its path.
\<close>

datatype request =
    PUT string "string gomap" "string option"
  | HEAD string "string gomap"
  | DELETE string

record 'w net =
  world :: 'w
  requests :: "request list"

definition call_createResourceBody ::
  "('e, 'w) ObjectClient \<Rightarrow> string \<Rightarrow> string gomap \<Rightarrow> string option \<Rightarrow> 'w net \<Rightarrow> 'e option \<times> 'w net" where
  "call_createResourceBody c name headers body s =
     (case createResourceBody c name headers body (world s) of
        (err, w') \<Rightarrow> (err, \<lparr>world = w', requests = requests s @ [PUT name headers body]\<rparr>))"

definition call_getResourceHeaders ::
  "('e, 'w) ObjectClient \<Rightarrow> string \<Rightarrow> ObjectInfo \<Rightarrow> string gomap \<Rightarrow> 'w net \<Rightarrow>
     ('e + Response \<times> ObjectInfo) \<times> 'w net" where
  "call_getResourceHeaders c name object headers s =
     (case getResourceHeaders c name object headers (world s) of
        (r, w') \<Rightarrow> (r, \<lparr>world = w', requests = requests s @ [HEAD name headers]\<rparr>))"

definition call_deleteResource ::
  "('e, 'w) ObjectClient \<Rightarrow> string \<Rightarrow> 'w net \<Rightarrow> 'e option \<times> 'w net" where
  "call_deleteResource c name s =
     (case deleteResource c name (world s) of
        (err, w') \<Rightarrow> (err, \<lparr>world = w', requests = requests s @ [DELETE name]\<rparr>))"

section \<open>storage/object.go: operations\<close>

subsection \<open>getIdentifier\<close>

definition getIdentifier ::
  "('e, 'w) ObjectClient \<Rightarrow> string \<Rightarrow> string \<Rightarrow> string \<Rightarrow> 'e error + string" where
  "getIdentifier c id' container name =
     (if id' \<noteq> [] then Inr (getQualifiedName c id')
      else if container = [] \<and> name = []
        then Inl (Errorf ''Either ID or Name and Container must be set during DELETE'')
        else Inr (getQualifiedName c (container @ ''/'' @ name)))"

subsection \<open>success: response headers to ObjectInfo\<close>

text \<open>The loop over \<^verbatim>\<open>resp.Header\<close> that fills \<^verbatim>\<open>object.ObjectMetadata\<close>.\<close>

fun success_metadata :: "Header \<Rightarrow> string gomap \<Rightarrow> string gomap" where
  "success_metadata [] md = md"
| "success_metadata ((header, value) # rest) md =
     (if HasPrefix header h_MetadataPrefix
      then success_metadata rest
             (AList.update (TrimPrefix header h_MetadataPrefix) (Join value '' '') md)
      else success_metadata rest md)"

text \<open>The ten headers that are copied as they are (an absent header reads as the empty string).\<close>

definition success_strings :: "Header \<Rightarrow> ObjectInfo \<Rightarrow> ObjectInfo" where
  "success_strings h object =
     object
       \<lparr>AcceptRanges := Header_Get h h_AcceptRanges,
        ObjectInfo.ContentDisposition := Header_Get h h_ContentDisposition,
        ObjectInfo.ContentEncoding := Header_Get h h_ContentEncoding,
        ObjectInfo.ContentType := Header_Get h h_ContentType,
        Date := Header_Get h h_Date,
        Etag := Header_Get h h_ETag,
        LastModified := Header_Get h h_LastModified,
        ObjectManifest := Header_Get h h_ObjectManifest,
        Timestamp := Header_Get h h_Timestamp,
        TransactionID := Header_Get h h_TransactionID\<rparr>"

definition success :: "Response \<Rightarrow> ObjectInfo \<Rightarrow> 'e error + ObjectInfo" where
  "success resp object0 =
     (let h = Header resp;
          object = success_strings h object0
      in case (if Header_Get h h_ContentLength \<noteq> []
               then (case Atoi (Header_Get h h_ContentLength) of
                       Inl err \<Rightarrow> Inl err
                     | Inr n \<Rightarrow> Inr (object\<lparr>ContentLength := n\<rparr>))
               else Inr object) of
           Inl err \<Rightarrow> Inl err
         | Inr object \<Rightarrow>
            (case (if Header_Get h h_DeleteAt \<noteq> []
                   then (case Atoi (Header_Get h h_DeleteAt) of
                           Inl err \<Rightarrow> Inl err
                         | Inr n \<Rightarrow> Inr (object\<lparr>ObjectInfo.DeleteAt := n\<rparr>))
                   else Inr object) of
               Inl err \<Rightarrow> Inl err
             | Inr object \<Rightarrow>
                 Inr (object\<lparr>ObjectInfo.ObjectMetadata := success_metadata h []\<rparr>)))"

subsection \<open>GetObject\<close>

definition GetObject ::
  "('e, 'w) ObjectClient \<Rightarrow> GetObjectInput \<Rightarrow> 'w net \<Rightarrow> ('e error + ObjectInfo) \<times> 'w net" where
  "GetObject c input s =
     (case getIdentifier c (GetObjectInput.ID input) (GetObjectInput.Container input)
             (GetObjectInput.Name input) of
        Inl err \<Rightarrow> (Inl err, s)
      | Inr name \<Rightarrow>
          (let headers = AList.update h_Range (Range' input) [];
               headers = AList.update h_Newest (Sprintf_t (Newest input)) headers
           in case call_getResourceHeaders c name ObjectInfo_zero headers s of
                (Inl err, s') \<Rightarrow> (Inl (TransportError err), s')
              | (Inr (resp, object), s') \<Rightarrow>
                  if GetObjectInput.ID input \<noteq> [] then
                    (let parts = Split (GetObjectInput.ID input) CHR ''/'' in
                     if length parts \<noteq> 2 then
                       (Inl (Errorf (''Unknown ID specified: '' @ GetObjectInput.ID input)), s')
                     else
                       (success resp
                          (object\<lparr>ObjectInfo.ID := GetObjectInput.ID input,
                                  ObjectInfo.Container := parts ! 0,
                                  ObjectInfo.Name := parts ! 1\<rparr>), s'))
                  else
                    (success resp
                       (object\<lparr>ObjectInfo.ID :=
                                   GetObjectInput.Container input @ ''/'' @ GetObjectInput.Name input,
                               ObjectInfo.Name := GetObjectInput.Name input,
                               ObjectInfo.Container := GetObjectInput.Container input\<rparr>), s')))"

subsection \<open>CreateObject\<close>

text \<open>The loop over \<^verbatim>\<open>input.ObjectMetadata\<close> that adds one header per entry.\<close>

fun CreateObject_metadata :: "string gomap \<Rightarrow> string gomap \<Rightarrow> string gomap" where
  "CreateObject_metadata [] headers = headers"
| "CreateObject_metadata ((name, value) # rest) headers =
     CreateObject_metadata rest (AList.update (h_MetadataPrefix @ name) value headers)"

text \<open>
  The request headers that \<^verbatim>\<open>CreateObject\<close> builds before it checks the body: first the
  seven optional fields, each under its own \<^verbatim>\<open>if\<close>, then the metadata.
\<close>

definition CreateObject_fields :: "CreateObjectInput \<Rightarrow> string gomap" where
  "CreateObject_fields input =
     (let headers = [];
          headers = (if CreateObjectInput.ContentDisposition input \<noteq> []
                     then AList.update h_ContentDisposition (CreateObjectInput.ContentDisposition input) headers
                     else headers);
          headers = (if CreateObjectInput.ContentEncoding input \<noteq> []
                     then AList.update h_ContentEncoding (CreateObjectInput.ContentEncoding input) headers
                     else headers);
          headers = (if CreateObjectInput.ContentType input \<noteq> []
                     then AList.update h_ContentType (CreateObjectInput.ContentType input) headers
                     else headers);
          headers = (if ETag input \<noteq> []
                     then AList.update h_ETag (ETag input) headers
                     else headers);
          headers = (if TransferEncoding input \<noteq> []
                     then AList.update h_TransferEncoding (TransferEncoding input) headers
                     else headers);
          headers = (if CopyFrom input \<noteq> []
                     then AList.update h_CopyFrom (CopyFrom input) headers
                     else headers);
          headers = (if CreateObjectInput.DeleteAt input \<noteq> 0
                     then AList.update h_DeleteAt (Sprintf_d (CreateObjectInput.DeleteAt input)) headers
                     else headers)
      in headers)"

definition CreateObject_headers :: "CreateObjectInput \<Rightarrow> string gomap" where
  "CreateObject_headers input =
     (let headers = CreateObject_fields input
      in if length (CreateObjectInput.ObjectMetadata input) > 0
         then CreateObject_metadata (CreateObjectInput.ObjectMetadata input) headers
         else headers)"

definition CreateObject ::
  "('e, 'w) ObjectClient \<Rightarrow> CreateObjectInput \<Rightarrow> 'w net \<Rightarrow> ('e error + ObjectInfo) \<times> 'w net" where
  "CreateObject c input s =
     (let name = getQualifiedName c
                   (CreateObjectInput.Container input @ ''/'' @ CreateObjectInput.Name input);
          headers = CreateObject_headers input
      in if Body input = None \<and> CopyFrom input = [] then (Inl (Errorf ''Body cannot be nil''), s)
         else (case call_createResourceBody c name headers (Body input) s of
                 (Some err, s') \<Rightarrow> (Inl (TransportError err), s')
               | (None, s') \<Rightarrow>
                   GetObject c
                     \<lparr>GetObjectInput.ID = [], Name = CreateObjectInput.Name input,
                      Container = CreateObjectInput.Container input, Range' = [],
                      Newest = False\<rparr> s'))"

subsection \<open>DeleteObject\<close>

definition DeleteObject ::
  "('e, 'w) ObjectClient \<Rightarrow> DeleteObjectInput \<Rightarrow> 'w net \<Rightarrow> 'e error option \<times> 'w net" where
  "DeleteObject c input s =
     (case getIdentifier c (DeleteObjectInput.ID input) (DeleteObjectInput.Container input)
             (DeleteObjectInput.Name input) of
        Inl err \<Rightarrow> (Some err, s)
      | Inr name \<Rightarrow>
          (case call_deleteResource c (getQualifiedName c name) s of
             (Some err, s') \<Rightarrow> (Some (TransportError err), s')
           | (None, s') \<Rightarrow> (None, s')))"

section \<open>Concrete collaborators\<close>

text \<open>
  Two collaborators on which the operations can be run. The first keeps the service's
  objects in memory, each path with the response headers it answers a read with: a write
  stores the request's headers (one value each), a read of a missing path fails, a
  deletion removes the path. It leaves names as they are. The second differs only in
  \<^verbatim>\<open>getQualifiedName\<close>, which puts the account's prefix in front of every name.
\<close>

definition Header_of :: "string gomap \<Rightarrow> Header" where
  "Header_of headers = map (\<lambda>(k, v). (k, [v])) headers"

definition memory_client :: "(string, Header gomap) ObjectClient" where
  "memory_client =
     \<lparr>getQualifiedName = (\<lambda>name. name),
      createResourceBody = (\<lambda>name headers body w.
         (None, AList.update name (Header_of headers) w)),
      getResourceHeaders = (\<lambda>name object headers w.
         (case map_of w name of
            None \<Rightarrow> Inl ''404 Not Found''
          | Some h \<Rightarrow> Inr (\<lparr>Header = h\<rparr>, object), w)),
      deleteResource = (\<lambda>name w.
         (case map_of w name of
            None \<Rightarrow> (Some ''404 Not Found'', w)
          | Some h \<Rightarrow> (None, AList.delete name w)))\<rparr>"

definition account_client :: "(string, Header gomap) ObjectClient" where
  "account_client =
     memory_client\<lparr>getQualifiedName := (\<lambda>name. ''v1/Storage-acme/'' @ name)\<rparr>"

text \<open>A state of the in-memory service that holds two objects, and no request made yet.\<close>

definition stored_net :: "(Header gomap) net" where
  "stored_net =
     \<lparr>world = [(''c1/f.txt'',
                [(''Content-Length'', [''42'']), (''Content-Type'', [''text/plain'']),
                 (''X-Object-Meta-color'', [''red''])]),
               (''c1/dir/g.txt'', [(''Content-Length'', [''7''])])],
      requests = []\<rparr>"

text \<open>The empty service, and the input of a write of five bytes of plain text.\<close>

definition empty_net :: "(Header gomap) net" where
  "empty_net = \<lparr>world = [], requests = []\<rparr>"

definition create_input :: CreateObjectInput where
  "create_input =
     \<lparr>CreateObjectInput.Name = ''f.txt'', Body = Some ''hello'', Container = ''c1'',
      ContentDisposition = [], ContentEncoding = [], ContentType = ''text/plain'', CopyFrom = [],
      DeleteAt = 0, ObjectMetadata = [], ETag = [], TransferEncoding = []\<rparr>"


section \<open>Auxiliary facts\<close>

lemmas h_defs =
  h_AcceptRanges_def h_ContentDisposition_def h_ContentEncoding_def h_ContentLength_def
  h_ContentType_def h_CopyFrom_def h_Date_def h_DeleteAt_def h_ETag_def h_LastModified_def
  h_Newest_def h_ObjectManifest_def h_Range_def h_Timestamp_def h_TransactionID_def
  h_TransferEncoding_def h_MetadataPrefix_def

subsection \<open>Split\<close>

lemma Split_from_no_sep: "sep \<notin> set a \<Longrightarrow> Split_from cur sep a = [rev cur @ a]"
  by (induction a arbitrary: cur) auto

lemma Split_from_cut:
  "sep \<notin> set a \<Longrightarrow> Split_from cur sep (a @ sep # b) = (rev cur @ a) # Split_from [] sep b"
  by (induction a arbitrary: cur) auto

lemma length_Split_from: "length (Split_from cur sep s) = Suc (count_list s sep)"
  by (induction s arbitrary: cur) auto

lemma length_Split: "length (Split s sep) = Suc (count_list s sep)"
  by (simp add: Split_def length_Split_from)

lemma Split_compose:
  "sep \<notin> set a \<Longrightarrow> sep \<notin> set b \<Longrightarrow> Split (a @ sep # b) sep = [a, b]"
  by (simp add: Split_def Split_from_cut Split_from_no_sep)

subsection \<open>success\<close>

lemma Atoi_not_Errorf: "Atoi v \<noteq> Inl (Errorf msg)"
  by (simp add: Atoi_def Let_def split: sum.splits)

lemma success_Inr:
  "(success resp object :: 'e error + ObjectInfo) = Inr d \<longleftrightarrow>
     (\<exists>cl da.
        (if Header_Get (Header resp) h_ContentLength \<noteq> []
         then (Atoi (Header_Get (Header resp) h_ContentLength) :: 'e error + int) = Inr cl
         else cl = ContentLength object) \<and>
        (if Header_Get (Header resp) h_DeleteAt \<noteq> []
         then (Atoi (Header_Get (Header resp) h_DeleteAt) :: 'e error + int) = Inr da
         else da = ObjectInfo.DeleteAt object) \<and>
        d = (success_strings (Header resp) object)
              \<lparr>ContentLength := cl, ObjectInfo.DeleteAt := da,
               ObjectInfo.ObjectMetadata := success_metadata (Header resp) []\<rparr>)"
proof -
  have 1: "ContentLength (success_strings h object) = ContentLength object" for h
    by (simp add: success_strings_def)
  have 2: "ObjectInfo.DeleteAt (success_strings h object) = ObjectInfo.DeleteAt object" for h
    by (simp add: success_strings_def)
  have 3: "ContentLength r = x \<Longrightarrow> r\<lparr>ContentLength := x\<rparr> = r" for r :: ObjectInfo and x
    by (cases r) simp
  have 4: "ObjectInfo.DeleteAt r = x \<Longrightarrow> r\<lparr>ObjectInfo.DeleteAt := x\<rparr> = r" for r :: ObjectInfo and x
    by (cases r) simp
  show ?thesis
    unfolding success_def Let_def
    by (cases "Atoi (Header_Get (Header resp) h_ContentLength) :: 'e error + int";
        cases "Atoi (Header_Get (Header resp) h_DeleteAt) :: 'e error + int")
       (auto simp: 1 2 3 4)
qed

lemma success_Inl:
  "(success resp object :: 'e error + ObjectInfo) = Inl err \<longleftrightarrow>
     (Header_Get (Header resp) h_ContentLength \<noteq> [] \<and>
      Atoi (Header_Get (Header resp) h_ContentLength) = Inl err) \<or>
     ((Header_Get (Header resp) h_ContentLength = [] \<or>
       (\<exists>n. (Atoi (Header_Get (Header resp) h_ContentLength) :: 'e error + int) = Inr n)) \<and>
      Header_Get (Header resp) h_DeleteAt \<noteq> [] \<and>
      Atoi (Header_Get (Header resp) h_DeleteAt) = Inl err)"
  unfolding success_def Let_def
  by (cases "Atoi (Header_Get (Header resp) h_ContentLength) :: 'e error + int";
      cases "Atoi (Header_Get (Header resp) h_DeleteAt) :: 'e error + int") auto

lemma success_keeps:
  assumes "success resp object = Inr d"
  shows "ObjectInfo.ID d = ObjectInfo.ID object"
    and "ObjectInfo.Name d = ObjectInfo.Name object"
    and "ObjectInfo.Container d = ObjectInfo.Container object"
  using assms by (auto simp: success_Inr success_strings_def)

lemma success_not_Errorf: "success resp object \<noteq> Inl (Errorf msg)"
  by (simp add: success_Inl Atoi_not_Errorf)

subsection \<open>Evaluation on concrete inputs\<close>

lemma canonical_keys:
  "CanonicalMIMEHeaderKey h_AcceptRanges = ''Accept-Ranges''"
  "CanonicalMIMEHeaderKey h_ContentDisposition = ''Content-Disposition''"
  "CanonicalMIMEHeaderKey h_ContentEncoding = ''Content-Encoding''"
  "CanonicalMIMEHeaderKey h_ContentLength = ''Content-Length''"
  "CanonicalMIMEHeaderKey h_ContentType = ''Content-Type''"
  "CanonicalMIMEHeaderKey h_Date = ''Date''"
  "CanonicalMIMEHeaderKey h_DeleteAt = ''X-Delete-At''"
  "CanonicalMIMEHeaderKey h_ETag = ''Etag''"
  "CanonicalMIMEHeaderKey h_LastModified = ''Last-Modified''"
  "CanonicalMIMEHeaderKey h_ObjectManifest = ''X-Object-Manifest''"
  "CanonicalMIMEHeaderKey h_Timestamp = ''X-Timestamp''"
  "CanonicalMIMEHeaderKey h_TransactionID = ''X-Trans-Id''"
  by (simp_all add: h_defs CanonicalMIMEHeaderKey_def validHeaderFieldByte_def
        to_upper_def to_lower_def lower_case_def upper_case_def)

lemmas run_defs =
  GetObject_def CreateObject_def DeleteObject_def getIdentifier_def
  call_createResourceBody_def call_getResourceHeaders_def call_deleteResource_def
  memory_client_def account_client_def Header_of_def stored_net_def
  success_def success_strings_def Header_Get_def canonical_keys
  HasPrefix_def TrimPrefix_def Split_def Sprintf_t_def Atoi_def is_digit_def
  ObjectInfo_zero_def CreateObject_headers_def CreateObject_fields_def h_Range_def h_Newest_def h_MetadataPrefix_def Let_def

lemma GetObject_stored:
  "GetObject memory_client
     \<lparr>GetObjectInput.ID = ''c1/f.txt'', Name = [], Container = [], Range' = [], Newest = False\<rparr>
     stored_net =
   (Inr \<lparr>ObjectInfo.ID = ''c1/f.txt'', Name = ''f.txt'', AcceptRanges = [], Container = ''c1'',
      ContentDisposition = [], ContentEncoding = [], ContentLength = 42, ContentType = ''text/plain'',
      Date = [], Etag = [], LastModified = [], DeleteAt = 0, ObjectManifest = [],
      ObjectMetadata = [(''color'', ''red'')], Timestamp = [], TransactionID = []\<rparr>,
    \<lparr>world = world stored_net,
     requests = [HEAD ''c1/f.txt'' [(''Range'', []), (''X-Newest'', ''false'')]]\<rparr>)"
  by (simp add: run_defs)

subsection \<open>GetObject with an explicit ID\<close>

lemma GetObject_by_ID:
  assumes "id' \<noteq> []"
    and "call_getResourceHeaders c (getQualifiedName c id') ObjectInfo_zero
           [(h_Range, r), (h_Newest, Sprintf_t b)] s = (Inr (resp, object), s')"
  shows "GetObject c \<lparr>GetObjectInput.ID = id', Name = n0, Container = c0, Range' = r, Newest = b\<rparr> s =
     (if length (Split id' CHR ''/'') \<noteq> 2
      then (Inl (Errorf (''Unknown ID specified: '' @ id')), s')
      else (success resp
              (object\<lparr>ObjectInfo.ID := id', ObjectInfo.Container := Split id' CHR ''/'' ! 0,
                      ObjectInfo.Name := Split id' CHR ''/'' ! 1\<rparr>), s'))"
  using assms by (simp add: GetObject_def getIdentifier_def Let_def h_Range_def h_Newest_def)

lemma GetObject_by_ID_result:
  assumes "GetObject c \<lparr>GetObjectInput.ID = id', Name = n0, Container = c0, Range' = r, Newest = b\<rparr> s = (Inr d, s')"
    and "id' \<noteq> []"
  shows "Split id' CHR ''/'' = [ObjectInfo.Container d, ObjectInfo.Name d] \<and> ObjectInfo.ID d = id'"
proof -
  obtain res s1 where call: "call_getResourceHeaders c (getQualifiedName c id') ObjectInfo_zero
           [(h_Range, r), (h_Newest, Sprintf_t b)] s = (res, s1)"
    by (cases "call_getResourceHeaders c (getQualifiedName c id') ObjectInfo_zero
           [(h_Range, r), (h_Newest, Sprintf_t b)] s") 
  from assms call obtain resp object where res: "res = Inr (resp, object)"
    by (cases res) (auto simp: GetObject_def getIdentifier_def Let_def h_Range_def h_Newest_def)
  let ?parts = "Split id' CHR ''/''"
  from GetObject_by_ID [OF assms(2) call [unfolded res], of n0 c0] assms(1)
  have len: "length ?parts = 2"
    and ok: "success resp (object\<lparr>ObjectInfo.ID := id', ObjectInfo.Container := ?parts ! 0,
                      ObjectInfo.Name := ?parts ! 1\<rparr>) = (Inr d :: 'a error + ObjectInfo)"
    by (auto split: if_splits)
  from len obtain p q where pq: "?parts = [p, q]"
    by (cases ?parts; cases "tl ?parts") auto
  from success_keeps [OF ok] pq show ?thesis by simp
qed

subsection \<open>GetObject by container and name\<close>

lemma GetObject_by_name:
  assumes "container \<noteq> [] \<or> name \<noteq> []"
  shows "GetObject c \<lparr>GetObjectInput.ID = [], Name = name, Container = container, Range' = r, Newest = b\<rparr> s =
     (case getResourceHeaders c (getQualifiedName c (container @ ''/'' @ name)) ObjectInfo_zero
             [(h_Range, r), (h_Newest, Sprintf_t b)] (world s) of
        (res, w') \<Rightarrow>
          (case res of
             Inl err \<Rightarrow> Inl (TransportError err)
           | Inr (resp, object) \<Rightarrow>
               success resp (object\<lparr>ObjectInfo.ID := container @ ''/'' @ name,
                        ObjectInfo.Name := name, ObjectInfo.Container := container\<rparr>),
           \<lparr>world = w',
            requests = requests s @ [HEAD (getQualifiedName c (container @ ''/'' @ name))
                                       [(h_Range, r), (h_Newest, Sprintf_t b)]]\<rparr>))"
  using assms
  by (auto simp: GetObject_def getIdentifier_def call_getResourceHeaders_def Let_def
        h_Range_def h_Newest_def split: prod.splits sum.splits)

lemma GetObject_by_name_ID:
  assumes "GetObject c \<lparr>GetObjectInput.ID = [], Name = name, Container = container, Range' = r, Newest = b\<rparr> s = (Inr d, s')"
  shows "ObjectInfo.ID d = container @ ''/'' @ name"
proof (cases "container = [] \<and> name = []")
  case True
  with assms show ?thesis by (simp add: GetObject_def getIdentifier_def)
next
  case False
  then have ne: "container \<noteq> [] \<or> name \<noteq> []" by simp
  from assms show ?thesis
    unfolding GetObject_by_name [OF ne]
    by (auto split: prod.splits sum.splits dest: success_keeps(1))
qed

subsection \<open>DeleteObject\<close>

lemma DeleteObject_resolved:
  assumes "getIdentifier c id' container name = Inr resolved"
  shows "DeleteObject c \<lparr>DeleteObjectInput.ID = id', Name = name, Container = container\<rparr> s =
     (case deleteResource c (getQualifiedName c resolved) (world s) of
        (err, w') \<Rightarrow>
          (map_option TransportError err,
           \<lparr>world = w', requests = requests s @ [DELETE (getQualifiedName c resolved)]\<rparr>))"
  using assms
  by (auto simp: DeleteObject_def call_deleteResource_def split: prod.splits option.splits)

subsection \<open>Prefixes\<close>

lemma HasPrefix_iff: "HasPrefix s p \<longleftrightarrow> (\<exists>t. s = p @ t)"
proof
  assume "HasPrefix s p"
  then have "s = p @ drop (length p) s"
    by (metis HasPrefix_def append_take_drop_id)
  then show "\<exists>t. s = p @ t" ..
next
  assume "\<exists>t. s = p @ t"
  then show "HasPrefix s p" by (auto simp: HasPrefix_def)
qed

lemma HasPrefix_append [simp]: "HasPrefix (p @ t) p"
  by (simp add: HasPrefix_def)

lemma TrimPrefix_append [simp]: "TrimPrefix (p @ t) p = t"
  by (simp add: TrimPrefix_def)

lemma HasPrefix_TrimPrefix: "HasPrefix s p \<Longrightarrow> p @ TrimPrefix s p = s"
  by (auto simp: HasPrefix_iff)

subsection \<open>The request headers of CreateObject\<close>

lemma map_of_CreateObject_metadata:
  "distinct (map fst md) \<Longrightarrow>
   map_of (CreateObject_metadata md headers) k =
     (if HasPrefix k h_MetadataPrefix \<and> map_of md (TrimPrefix k h_MetadataPrefix) \<noteq> None
      then map_of md (TrimPrefix k h_MetadataPrefix)
      else map_of headers k)"
proof (induction md arbitrary: headers k)
  case Nil
  then show ?case by simp
next
  case (Cons e md)
  obtain name "value" where e: "e = (name, value)" by (cases e)
  from Cons.prems e have fresh: "map_of md name = None" and dist: "distinct (map fst md)"
    by (auto simp: map_of_eq_None_iff)
  show ?case
  proof (cases "k = h_MetadataPrefix @ name")
    case True
    then show ?thesis
      by (simp add: e Cons.IH [OF dist] fresh update_conv')
  next
    case False
    have "TrimPrefix k h_MetadataPrefix \<noteq> name" if "HasPrefix k h_MetadataPrefix"
      using HasPrefix_TrimPrefix [OF that] False by auto
    with False show ?thesis
      by (auto simp: e Cons.IH [OF dist] update_conv')
  qed
qed

lemma distinct_CreateObject_metadata:
  "distinct (map fst headers) \<Longrightarrow> distinct (map fst (CreateObject_metadata md headers))"
  by (induction md arbitrary: headers) (auto simp: distinct_update)

lemma distinct_CreateObject_fields: "distinct (map fst (CreateObject_fields input))"
  by (simp add: CreateObject_fields_def Let_def distinct_update)

lemma map_of_update_if:
  "map_of (if c then AList.update a v headers else headers) k =
     (if c \<and> k = a then Some v else map_of headers k)"
  by (simp add: update_conv')

lemma map_of_CreateObject_fields:
  "map_of (CreateObject_fields input) k =
     (if CreateObjectInput.DeleteAt input \<noteq> 0 \<and> k = h_DeleteAt
        then Some (Sprintf_d (CreateObjectInput.DeleteAt input))
      else if CopyFrom input \<noteq> [] \<and> k = h_CopyFrom then Some (CopyFrom input)
      else if TransferEncoding input \<noteq> [] \<and> k = h_TransferEncoding
        then Some (TransferEncoding input)
      else if ETag input \<noteq> [] \<and> k = h_ETag then Some (ETag input)
      else if CreateObjectInput.ContentType input \<noteq> [] \<and> k = h_ContentType
        then Some (CreateObjectInput.ContentType input)
      else if CreateObjectInput.ContentEncoding input \<noteq> [] \<and> k = h_ContentEncoding
        then Some (CreateObjectInput.ContentEncoding input)
      else if CreateObjectInput.ContentDisposition input \<noteq> [] \<and> k = h_ContentDisposition
        then Some (CreateObjectInput.ContentDisposition input)
      else None)"
  unfolding CreateObject_fields_def Let_def map_of_update_if
  by (simp only: map_of.simps)

lemma CreateObject_headers_eq:
  "CreateObject_headers input =
     CreateObject_metadata (CreateObjectInput.ObjectMetadata input) (CreateObject_fields input)"
  by (cases "CreateObjectInput.ObjectMetadata input") (simp_all add: CreateObject_headers_def)

lemma map_of_CreateObject_headers:
  "distinct (map fst (CreateObjectInput.ObjectMetadata input)) \<Longrightarrow>
   map_of (CreateObject_headers input) k =
     (if HasPrefix k h_MetadataPrefix \<and>
         map_of (CreateObjectInput.ObjectMetadata input) (TrimPrefix k h_MetadataPrefix) \<noteq> None
      then map_of (CreateObjectInput.ObjectMetadata input) (TrimPrefix k h_MetadataPrefix)
      else map_of (CreateObject_fields input) k)"
  by (simp only: CreateObject_headers_eq map_of_CreateObject_metadata)

lemma distinct_CreateObject_headers: "distinct (map fst (CreateObject_headers input))"
  by (simp add: CreateObject_headers_eq distinct_CreateObject_metadata
        distinct_CreateObject_fields)

subsection \<open>The metadata of a response\<close>

lemma map_of_success_metadata:
  "distinct (map fst h) \<Longrightarrow>
   map_of (success_metadata h md) name =
     (case map_of h (h_MetadataPrefix @ name) of
        Some vs \<Rightarrow> Some (Join vs '' '')
      | None \<Rightarrow> map_of md name)"
proof (induction h arbitrary: md)
  case Nil
  then show ?case by simp
next
  case (Cons e h)
  obtain header "value" where e: "e = (header, value)" by (cases e)
  from Cons.prems e have fresh: "map_of h header = None" and dist: "distinct (map fst h)"
    by (auto simp: map_of_eq_None_iff)
  show ?case
  proof (cases "header = h_MetadataPrefix @ name")
    case True
    then show ?thesis
      using fresh by (simp add: e Cons.IH [OF dist] update_conv')
  next
    case False
    have "TrimPrefix header h_MetadataPrefix \<noteq> name" if "HasPrefix header h_MetadataPrefix"
      using HasPrefix_TrimPrefix [OF that] False by auto
    with False show ?thesis
      by (auto simp: e Cons.IH [OF dist] update_conv' split: option.splits)
  qed
qed

lemma success_ObjectMetadata:
  assumes "(success resp object :: 'e error + ObjectInfo) = Inr d"
  shows "ObjectInfo.ObjectMetadata d = success_metadata (Header resp) []"
proof -
  from assms obtain cl da where
    "d = (success_strings (Header resp) object)
              \<lparr>ContentLength := cl, ObjectInfo.DeleteAt := da,
               ObjectInfo.ObjectMetadata := success_metadata (Header resp) []\<rparr>"
    unfolding success_Inr by blast
  then show ?thesis by simp
qed

lemma success_no_numeric:
  assumes "Header_Get (Header resp) h_ContentLength = []"
    and "Header_Get (Header resp) h_DeleteAt = []"
  shows "\<exists>d. (success resp object :: 'e error + ObjectInfo) = Inr d"
  using assms by (simp add: success_def Let_def)

lemma map_of_Header_of: "map_of (Header_of headers) k = map_option (\<lambda>v. [v]) (map_of headers k)"
  by (simp add: Header_of_def map_of_map)

lemma distinct_Header_of: "map fst (Header_of headers) = map fst headers"
  by (simp add: Header_of_def case_prod_unfold)

lemma Header_Get_Header_of:
  "Header_Get (Header_of headers) key =
     (case map_of headers (CanonicalMIMEHeaderKey key) of None \<Rightarrow> [] | Some v \<Rightarrow> v)"
  by (simp add: Header_Get_def map_of_Header_of split: option.splits)

subsection \<open>The errors of Atoi\<close>





subsection \<open>The path of the request, for a resolved identifier\<close>

lemma requests_GetObject:
  assumes "getIdentifier c id' container name = Inr resolved"
  shows "requests (snd (GetObject c \<lparr>GetObjectInput.ID = id', Name = name, Container = container,
                                  Range' = r, Newest = b\<rparr> s)) =
         requests s @ [HEAD resolved [(h_Range, r), (h_Newest, Sprintf_t b)]]"
  using assms
  by (auto simp: GetObject_def call_getResourceHeaders_def Let_def h_Range_def h_Newest_def
        split: prod.splits sum.splits)

lemma requests_DeleteObject:
  assumes "getIdentifier c id' container name = Inr resolved"
  shows "requests (snd (DeleteObject c \<lparr>DeleteObjectInput.ID = id', Name = name,
                                     Container = container\<rparr> s)) =
         requests s @ [DELETE (getQualifiedName c resolved)]"
  unfolding DeleteObject_resolved [OF assms] by (simp split: prod.splits)

lemma same_path_if_idempotent:
  assumes "getIdentifier c id' container name = Inr resolved"
    and "\<And>x. getQualifiedName c (getQualifiedName c x) = getQualifiedName c x"
  shows "getQualifiedName c resolved = resolved"
  using assms by (auto simp: getIdentifier_def split: if_splits)

section \<open>The claims\<close>

text \<open>
  C6. For all non-empty container and name strings that do not contain the separator
  \<^verbatim>\<open>/\<close>, composing the compound identifier \<open>container + "/" + name\<close> and splitting it
  by the separator gives back exactly the container and the name; and whenever
  \<^verbatim>\<open>GetObject\<close> returns a descriptor for that identifier, its ID is the identifier and its
  Container and Name are the original two strings.
\<close>

theorem compose_then_decompose:
  assumes "container \<noteq> []" and "name \<noteq> []"
    and "CHR ''/'' \<notin> set container" and "CHR ''/'' \<notin> set name"
  shows "Split (container @ ''/'' @ name) CHR ''/'' = [container, name] \<and>
         (\<forall>d s'. GetObject c \<lparr>GetObjectInput.ID = container @ ''/'' @ name, Name = n0, Container = c0,
                               Range' = r, Newest = b\<rparr> s = (Inr d, s') \<longrightarrow>
                 ObjectInfo.ID d = container @ ''/'' @ name \<and>
                 ObjectInfo.Container d = container \<and> ObjectInfo.Name d = name)"
proof -
  have split: "Split (container @ ''/'' @ name) CHR ''/'' = [container, name]"
    using assms(3,4) Split_compose [of "CHR ''/''" container name] by simp
  show ?thesis
  proof (intro conjI allI impI)
    fix d s'
    assume "GetObject c \<lparr>GetObjectInput.ID = container @ ''/'' @ name, Name = n0, Container = c0,
                               Range' = r, Newest = b\<rparr> s = (Inr d, s')"
    from GetObject_by_ID_result [OF this] split
    show "ObjectInfo.ID d = container @ ''/'' @ name"
      and "ObjectInfo.Container d = container" and "ObjectInfo.Name d = name"
      by simp_all
  qed (rule split)
qed

theorem compose_then_decompose_witness:
  "''c1'' \<noteq> [] \<and> ''f.txt'' \<noteq> [] \<and> CHR ''/'' \<notin> set ''c1'' \<and> CHR ''/'' \<notin> set ''f.txt'' \<and>
   Split (''c1'' @ ''/'' @ ''f.txt'') CHR ''/'' = [''c1'', ''f.txt''] \<and>
   (\<exists>d s'. GetObject memory_client
              \<lparr>GetObjectInput.ID = ''c1'' @ ''/'' @ ''f.txt'', Name = [], Container = [],
               Range' = [], Newest = False\<rparr> stored_net = (Inr d, s') \<and>
            ObjectInfo.Container d = ''c1'' \<and> ObjectInfo.Name d = ''f.txt'')"
proof -
  have pre: "''c1'' \<noteq> []" "''f.txt'' \<noteq> []" "CHR ''/'' \<notin> set ''c1''" "CHR ''/'' \<notin> set ''f.txt''"
    by simp_all
  note inst = compose_then_decompose [OF pre, of memory_client "[]" "[]" "[]" False stored_net]
  have run: "\<exists>d s'. GetObject memory_client
              \<lparr>GetObjectInput.ID = ''c1'' @ ''/'' @ ''f.txt'', Name = [], Container = [],
               Range' = [], Newest = False\<rparr> stored_net = (Inr d, s')"
    using GetObject_stored by simp
  from inst run pre show ?thesis by blast
qed

text \<open>
  C1. For every \<^verbatim>\<open>CreateObject\<close> call whose body or copy source is present and whose
  write succeeds at the collaborator, the result is exactly the result of the
  \<^verbatim>\<open>GetObject\<close> that follows, for the same Container and Name, in the world the write
  left behind: no field of the descriptor comes from the write's response. The write is
  the one request made before it, under the qualified form of \<open>container + "/" + name\<close>,
  with the marshalled headers and the body. On success the descriptor's ID is
  \<open>container + "/" + name\<close>.
\<close>

theorem CreateObject_then_GetObject:
  assumes "Body input \<noteq> None \<or> CopyFrom input \<noteq> []"
    and "createResourceBody c
           (getQualifiedName c (CreateObjectInput.Container input @ ''/'' @ CreateObjectInput.Name input))
           (CreateObject_headers input) (Body input) (world s) = (None, w')"
  shows "CreateObject c input s =
           GetObject c
             \<lparr>GetObjectInput.ID = [], Name = CreateObjectInput.Name input,
              Container = CreateObjectInput.Container input, Range' = [], Newest = False\<rparr>
             \<lparr>world = w',
              requests = requests s @
                [PUT (getQualifiedName c
                        (CreateObjectInput.Container input @ ''/'' @ CreateObjectInput.Name input))
                     (CreateObject_headers input) (Body input)]\<rparr> \<and>
         (\<forall>d s'. CreateObject c input s = (Inr d, s') \<longrightarrow>
                  ObjectInfo.ID d =
                    CreateObjectInput.Container input @ ''/'' @ CreateObjectInput.Name input)"
proof -
  have eq: "CreateObject c input s =
           GetObject c
             \<lparr>GetObjectInput.ID = [], Name = CreateObjectInput.Name input,
              Container = CreateObjectInput.Container input, Range' = [], Newest = False\<rparr>
             \<lparr>world = w',
              requests = requests s @
                [PUT (getQualifiedName c
                        (CreateObjectInput.Container input @ ''/'' @ CreateObjectInput.Name input))
                     (CreateObject_headers input) (Body input)]\<rparr>"
    using assms by (auto simp: CreateObject_def call_createResourceBody_def Let_def)
  show ?thesis
    unfolding eq using GetObject_by_name_ID by blast
qed

theorem CreateObject_then_GetObject_witness:
  "CreateObject memory_client create_input empty_net =
     GetObject memory_client
       \<lparr>GetObjectInput.ID = [], Name = ''f.txt'', Container = ''c1'', Range' = [], Newest = False\<rparr>
       \<lparr>world = [(''c1/f.txt'', [(''Content-Type'', [''text/plain''])])],
        requests = [PUT ''c1/f.txt'' [(''Content-Type'', ''text/plain'')] (Some ''hello'')]\<rparr> \<and>
   (\<exists>d s'. CreateObject memory_client create_input empty_net = (Inr d, s') \<and>
      ObjectInfo.ID d = ''c1/f.txt'' \<and> ObjectInfo.ContentType d = ''text/plain'' \<and>
      requests s' = [PUT ''c1/f.txt'' [(''Content-Type'', ''text/plain'')] (Some ''hello''),
                     HEAD ''c1/f.txt'' [(''Range'', []), (''X-Newest'', ''false'')]])"
proof -
  have hdrs: "CreateObject_headers create_input = [(''Content-Type'', ''text/plain'')]"
    by (simp add: CreateObject_headers_def CreateObject_fields_def create_input_def h_ContentType_def)
  have pre: "Body create_input \<noteq> None \<or> CopyFrom create_input \<noteq> []"
    by (simp add: create_input_def)
  have put: "createResourceBody memory_client
           (getQualifiedName memory_client
              (CreateObjectInput.Container create_input @ ''/'' @ CreateObjectInput.Name create_input))
           (CreateObject_headers create_input) (Body create_input) (world empty_net) =
         (None, [(''c1/f.txt'', [(''Content-Type'', [''text/plain''])])])"
    unfolding hdrs by (simp add: memory_client_def create_input_def empty_net_def Header_of_def)
  have get: "GetObject memory_client
       \<lparr>GetObjectInput.ID = [], Name = ''f.txt'', Container = ''c1'', Range' = [], Newest = False\<rparr>
       \<lparr>world = [(''c1/f.txt'', [(''Content-Type'', [''text/plain''])])],
        requests = [PUT ''c1/f.txt'' [(''Content-Type'', ''text/plain'')] (Some ''hello'')]\<rparr> =
     (Inr \<lparr>ObjectInfo.ID = ''c1/f.txt'', Name = ''f.txt'', AcceptRanges = [], Container = ''c1'',
        ContentDisposition = [], ContentEncoding = [], ContentLength = 0, ContentType = ''text/plain'',
        Date = [], Etag = [], LastModified = [], DeleteAt = 0, ObjectManifest = [],
        ObjectMetadata = [], Timestamp = [], TransactionID = []\<rparr>,
      \<lparr>world = [(''c1/f.txt'', [(''Content-Type'', [''text/plain''])])],
       requests = [PUT ''c1/f.txt'' [(''Content-Type'', ''text/plain'')] (Some ''hello''),
                   HEAD ''c1/f.txt'' [(''Range'', []), (''X-Newest'', ''false'')]]\<rparr>)"
    by (simp add: run_defs)
  from CreateObject_then_GetObject [OF pre put]
  have "CreateObject memory_client create_input empty_net =
     GetObject memory_client
       \<lparr>GetObjectInput.ID = [], Name = ''f.txt'', Container = ''c1'', Range' = [], Newest = False\<rparr>
       \<lparr>world = [(''c1/f.txt'', [(''Content-Type'', [''text/plain''])])],
        requests = [PUT ''c1/f.txt'' [(''Content-Type'', ''text/plain'')] (Some ''hello'')]\<rparr>"
    by (simp add: hdrs) (simp add: memory_client_def create_input_def empty_net_def)
  then show ?thesis by (simp add: get)
qed

text \<open>
  C8. For every \<^verbatim>\<open>CreateObject\<close> input with a nil body and an empty copy source,
  \<^verbatim>\<open>CreateObject\<close> fails with the error whose message is \<open>Body cannot be nil\<close>, and
  the collaborator is not called: the world and the list of requests are as they were.
\<close>

theorem CreateObject_body_nil:
  assumes "Body input = None" and "CopyFrom input = []"
  shows "CreateObject c input s = (Inl (Errorf ''Body cannot be nil''), s) \<and>
         requests (snd (CreateObject c input s)) = requests s \<and>
         world (snd (CreateObject c input s)) = world s"
  using assms by (simp add: CreateObject_def Let_def)

theorem CreateObject_body_nil_witness:
  "CreateObject memory_client (create_input\<lparr>Body := None\<rparr>) stored_net =
     (Inl (Errorf ''Body cannot be nil''), stored_net) \<and>
   requests (snd (CreateObject memory_client (create_input\<lparr>Body := None\<rparr>) stored_net)) = []"
proof -
  have "Body (create_input\<lparr>Body := None\<rparr>) = None" by simp
  moreover have "CopyFrom (create_input\<lparr>Body := None\<rparr>) = []" by (simp add: create_input_def)
  ultimately show ?thesis
    using CreateObject_body_nil [of "create_input\<lparr>Body := None\<rparr>" memory_client stored_net]
    by (simp add: stored_net_def)
qed

text \<open>
  C9. For every \<^verbatim>\<open>GetObject\<close> call with a non-empty explicit ID whose request succeeds at
  the collaborator: the split of the ID by \<^verbatim>\<open>/\<close> has two parts exactly when the ID
  holds one separator; the call fails with a \<^verbatim>\<open>fmt.Errorf\<close> error exactly when the split
  does not have two parts, and the message is then \<open>Unknown ID specified: \<close> followed by
  the ID; otherwise the descriptor handed to the header unmarshaling has the ID of the input
  and the two parts as Container and Name, and so has every descriptor that is returned.
\<close>

theorem GetObject_decomposition:
  assumes "id' \<noteq> []"
    and "getResourceHeaders c (getQualifiedName c id') ObjectInfo_zero
           [(h_Range, r), (h_Newest, Sprintf_t b)] (world s) = (Inr (resp, object), w')"
  shows "(length (Split id' CHR ''/'') \<noteq> 2 \<longleftrightarrow> count_list id' CHR ''/'' \<noteq> 1) \<and>
     ((\<exists>msg. fst (GetObject c \<lparr>GetObjectInput.ID = id', Name = n0, Container = c0,
                                Range' = r, Newest = b\<rparr> s) = Inl (Errorf msg)) \<longleftrightarrow>
      length (Split id' CHR ''/'') \<noteq> 2) \<and>
     GetObject c \<lparr>GetObjectInput.ID = id', Name = n0, Container = c0, Range' = r, Newest = b\<rparr> s =
       (if length (Split id' CHR ''/'') \<noteq> 2
        then Inl (Errorf (''Unknown ID specified: '' @ id'))
        else success resp
               (object\<lparr>ObjectInfo.ID := id', ObjectInfo.Container := Split id' CHR ''/'' ! 0,
                       ObjectInfo.Name := Split id' CHR ''/'' ! 1\<rparr>),
        \<lparr>world = w',
         requests = requests s @
           [HEAD (getQualifiedName c id') [(h_Range, r), (h_Newest, Sprintf_t b)]]\<rparr>) \<and>
     (\<forall>d s'. GetObject c \<lparr>GetObjectInput.ID = id', Name = n0, Container = c0,
                           Range' = r, Newest = b\<rparr> s = (Inr d, s') \<longrightarrow>
        ObjectInfo.ID d = id' \<and> Split id' CHR ''/'' = [ObjectInfo.Container d, ObjectInfo.Name d])"
proof -
  let ?input = "\<lparr>GetObjectInput.ID = id', Name = n0, Container = c0, Range' = r, Newest = b\<rparr>"
  let ?s' = "\<lparr>world = w', requests = requests s @
           [HEAD (getQualifiedName c id') [(h_Range, r), (h_Newest, Sprintf_t b)]]\<rparr>"
  have call: "call_getResourceHeaders c (getQualifiedName c id') ObjectInfo_zero
           [(h_Range, r), (h_Newest, Sprintf_t b)] s = (Inr (resp, object), ?s')"
    using assms(2) by (simp add: call_getResourceHeaders_def)
  note run = GetObject_by_ID [OF assms(1) call, of n0 c0]
  have count: "length (Split id' CHR ''/'') \<noteq> 2 \<longleftrightarrow> count_list id' CHR ''/'' \<noteq> 1"
    by (simp add: length_Split)
  have err: "(\<exists>msg. fst (GetObject c ?input s) = Inl (Errorf msg)) \<longleftrightarrow>
      length (Split id' CHR ''/'') \<noteq> 2"
    unfolding run by (simp add: success_not_Errorf)
  have eq: "GetObject c ?input s =
       (if length (Split id' CHR ''/'') \<noteq> 2
        then Inl (Errorf (''Unknown ID specified: '' @ id'))
        else success resp
               (object\<lparr>ObjectInfo.ID := id', ObjectInfo.Container := Split id' CHR ''/'' ! 0,
                       ObjectInfo.Name := Split id' CHR ''/'' ! 1\<rparr>), ?s')"
    unfolding run by simp
  have res: "\<forall>d s'. GetObject c ?input s = (Inr d, s') \<longrightarrow>
        ObjectInfo.ID d = id' \<and> Split id' CHR ''/'' = [ObjectInfo.Container d, ObjectInfo.Name d]"
    using GetObject_by_ID_result [OF _ assms(1)] by blast
  from count err eq res show ?thesis by blast
qed

theorem GetObject_decomposition_witness:
  "GetObject memory_client
     \<lparr>GetObjectInput.ID = ''c1/dir/g.txt'', Name = [], Container = [], Range' = [], Newest = False\<rparr>
     stored_net =
   (Inl (Errorf ''Unknown ID specified: c1/dir/g.txt''),
    \<lparr>world = world stored_net,
     requests = [HEAD ''c1/dir/g.txt'' [(''Range'', []), (''X-Newest'', ''false'')]]\<rparr>) \<and>
   count_list ''c1/dir/g.txt'' CHR ''/'' = 2 \<and>
   (\<exists>d s'. GetObject memory_client
     \<lparr>GetObjectInput.ID = ''c1/f.txt'', Name = [], Container = [], Range' = [], Newest = False\<rparr>
     stored_net = (Inr d, s') \<and> ObjectInfo.ID d = ''c1/f.txt'' \<and>
     ObjectInfo.Container d = ''c1'' \<and> ObjectInfo.Name d = ''f.txt'') \<and>
   count_list ''c1/f.txt'' CHR ''/'' = 1"
proof -
  have g: "getResourceHeaders memory_client (getQualifiedName memory_client ''c1/dir/g.txt'')
             ObjectInfo_zero [(h_Range, []), (h_Newest, Sprintf_t False)] (world stored_net) =
           (Inr (\<lparr>Header = [(''Content-Length'', [''7''])]\<rparr>, ObjectInfo_zero), world stored_net)"
    by (simp add: memory_client_def stored_net_def)
  have f: "getResourceHeaders memory_client (getQualifiedName memory_client ''c1/f.txt'')
             ObjectInfo_zero [(h_Range, []), (h_Newest, Sprintf_t False)] (world stored_net) =
           (Inr (\<lparr>Header = [(''Content-Length'', [''42'']), (''Content-Type'', [''text/plain'']),
                 (''X-Object-Meta-color'', [''red''])]\<rparr>, ObjectInfo_zero), world stored_net)"
    by (simp add: memory_client_def stored_net_def)
  have cg: "count_list ''c1/dir/g.txt'' CHR ''/'' = 2" by simp
  have cf: "count_list ''c1/f.txt'' CHR ''/'' = 1" by simp
  have lg: "length (Split ''c1/dir/g.txt'' CHR ''/'') \<noteq> 2" by (simp add: length_Split)
  have 1: "GetObject memory_client
     \<lparr>GetObjectInput.ID = ''c1/dir/g.txt'', Name = [], Container = [], Range' = [], Newest = False\<rparr>
     stored_net =
   (Inl (Errorf ''Unknown ID specified: c1/dir/g.txt''),
    \<lparr>world = world stored_net,
     requests = [HEAD ''c1/dir/g.txt'' [(''Range'', []), (''X-Newest'', ''false'')]]\<rparr>)"
    using GetObject_decomposition [OF _ g, of "[]" "[]"] lg
    by (simp add: stored_net_def memory_client_def h_Range_def h_Newest_def Sprintf_t_def)
  have 2: "\<exists>d s'. GetObject memory_client
     \<lparr>GetObjectInput.ID = ''c1/f.txt'', Name = [], Container = [], Range' = [], Newest = False\<rparr>
     stored_net = (Inr d, s') \<and> ObjectInfo.ID d = ''c1/f.txt'' \<and>
     ObjectInfo.Container d = ''c1'' \<and> ObjectInfo.Name d = ''f.txt''"
  proof -
    from GetObject_stored obtain d s' where run: "GetObject memory_client
        \<lparr>GetObjectInput.ID = ''c1/f.txt'', Name = [], Container = [], Range' = [], Newest = False\<rparr>
        stored_net = (Inr d, s')"
      by blast
    have "''c1/f.txt'' \<noteq> []" by simp
    from GetObject_decomposition [OF this f, of "[]" "[]"] run
    have "ObjectInfo.ID d = ''c1/f.txt'' \<and>
          Split ''c1/f.txt'' CHR ''/'' = [ObjectInfo.Container d, ObjectInfo.Name d]"
      by blast
    moreover have "Split ''c1/f.txt'' CHR ''/'' = [''c1'', ''f.txt'']"
      by (simp add: Split_def)
    ultimately show ?thesis using run by auto
  qed
  from 1 2 cg cf show ?thesis by blast
qed

text \<open>
  C2 (as amended). For every \<open>(id, container, name)\<close>: when the id is non-empty,
  \<^verbatim>\<open>getIdentifier\<close> returns it, in the form \<^verbatim>\<open>getQualifiedName\<close> gives it; when all three
  are empty it fails with the error whose message is
  \<open>Either ID or Name and Container must be set during DELETE\<close>; when the id is empty and
  container or name is not, it returns the qualified form of \<open>container + "/" + name\<close>.
\<close>

theorem getIdentifier_resolution:
  "(id' \<noteq> [] \<longrightarrow> getIdentifier c id' container name = Inr (getQualifiedName c id')) \<and>
   (id' = [] \<and> container = [] \<and> name = [] \<longrightarrow>
      getIdentifier c id' container name =
        Inl (Errorf ''Either ID or Name and Container must be set during DELETE'')) \<and>
   (id' = [] \<and> (container \<noteq> [] \<or> name \<noteq> []) \<longrightarrow>
      getIdentifier c id' container name = Inr (getQualifiedName c (container @ ''/'' @ name)))"
  by (auto simp: getIdentifier_def)

theorem getIdentifier_resolution_witness:
  "getIdentifier memory_client ''c1/f.txt'' ''other'' ''g.txt'' = Inr ''c1/f.txt'' \<and>
   getIdentifier memory_client [] [] [] =
     Inl (Errorf ''Either ID or Name and Container must be set during DELETE'') \<and>
   getIdentifier memory_client [] ''c1'' ''f.txt'' = Inr ''c1/f.txt'' \<and>
   getIdentifier account_client [] ''c1'' ''f.txt'' = Inr ''v1/Storage-acme/c1/f.txt''"
  using getIdentifier_resolution [of "''c1/f.txt''" memory_client "''other''" "''g.txt''"]
    getIdentifier_resolution [of "[]" memory_client "[]" "[]"]
    getIdentifier_resolution [of "[]" memory_client "''c1''" "''f.txt''"]
    getIdentifier_resolution [of "[]" account_client "''c1''" "''f.txt''"]
  by (simp add: memory_client_def account_client_def)

text \<open>
  C2 as stated gives the message as \<open>Either ID or Name and Container must be set\<close>; with
  all three strings empty the message of the code is a different string.
\<close>

theorem getIdentifier_message_counterexample:
  "getIdentifier memory_client [] [] [] \<noteq>
     Inl (Errorf ''Either ID or Name and Container must be set'')"
  by (simp add: getIdentifier_def)

text \<open>
  C10. When no explicit identifier is given and exactly one of container and name is
  empty, \<^verbatim>\<open>getIdentifier\<close> does not fail: it returns the qualified form of the degenerate
  composition (\<open>container/\<close> or \<open>/name\<close>). \<^verbatim>\<open>GetObject\<close> then issues its request
  under that path and \<^verbatim>\<open>DeleteObject\<close> issues its request (under the path qualified once
  more), and neither returns a \<^verbatim>\<open>fmt.Errorf\<close> error.
\<close>

theorem degenerate_identifier:
  assumes "(container = []) \<noteq> (name = [])"
  shows "getIdentifier c [] container name = Inr (getQualifiedName c (container @ ''/'' @ name)) \<and>
     container @ ''/'' @ name = (if name = [] then container @ ''/'' else ''/'' @ name) \<and>
     requests (snd (GetObject c \<lparr>GetObjectInput.ID = [], Name = name, Container = container,
                                  Range' = r, Newest = b\<rparr> s)) =
       requests s @ [HEAD (getQualifiedName c (container @ ''/'' @ name))
                       [(h_Range, r), (h_Newest, Sprintf_t b)]] \<and>
     (\<forall>msg. fst (GetObject c \<lparr>GetObjectInput.ID = [], Name = name, Container = container,
                                Range' = r, Newest = b\<rparr> s) \<noteq> Inl (Errorf msg)) \<and>
     requests (snd (DeleteObject c \<lparr>DeleteObjectInput.ID = [], Name = name,
                                     Container = container\<rparr> s)) =
       requests s @ [DELETE (getQualifiedName c (getQualifiedName c (container @ ''/'' @ name)))] \<and>
     (\<forall>msg. fst (DeleteObject c \<lparr>DeleteObjectInput.ID = [], Name = name,
                                   Container = container\<rparr> s) \<noteq> Some (Errorf msg))"
proof -
  from assms have ne: "container \<noteq> [] \<or> name \<noteq> []" by auto
  then have ident: "getIdentifier c [] container name =
      Inr (getQualifiedName c (container @ ''/'' @ name))"
    by (auto simp: getIdentifier_def)
  have comp: "container @ ''/'' @ name = (if name = [] then container @ ''/'' else ''/'' @ name)"
    using assms by auto
  have get_req: "requests (snd (GetObject c \<lparr>GetObjectInput.ID = [], Name = name,
        Container = container, Range' = r, Newest = b\<rparr> s)) =
       requests s @ [HEAD (getQualifiedName c (container @ ''/'' @ name))
                       [(h_Range, r), (h_Newest, Sprintf_t b)]]"
    unfolding GetObject_by_name [OF ne] by (simp split: prod.splits)
  have get_err: "\<forall>msg. fst (GetObject c \<lparr>GetObjectInput.ID = [], Name = name,
        Container = container, Range' = r, Newest = b\<rparr> s) \<noteq> Inl (Errorf msg)"
    unfolding GetObject_by_name [OF ne]
    by (simp add: success_not_Errorf split: prod.splits sum.splits)
  have del_req: "requests (snd (DeleteObject c \<lparr>DeleteObjectInput.ID = [], Name = name,
                                     Container = container\<rparr> s)) =
       requests s @ [DELETE (getQualifiedName c (getQualifiedName c (container @ ''/'' @ name)))]"
    unfolding DeleteObject_resolved [OF ident] by (simp split: prod.splits)
  have del_err: "\<forall>msg. fst (DeleteObject c \<lparr>DeleteObjectInput.ID = [], Name = name,
                                   Container = container\<rparr> s) \<noteq> Some (Errorf msg)"
    unfolding DeleteObject_resolved [OF ident] by (auto split: prod.splits)
  from ident comp get_req get_err del_req del_err show ?thesis by blast
qed

theorem degenerate_identifier_witness:
  "getIdentifier memory_client [] ''c1'' [] = Inr ''c1/'' \<and>
   requests (snd (GetObject memory_client
      \<lparr>GetObjectInput.ID = [], Name = [], Container = ''c1'', Range' = [], Newest = False\<rparr>
      stored_net)) = [HEAD ''c1/'' [(''Range'', []), (''X-Newest'', ''false'')]] \<and>
   requests (snd (DeleteObject memory_client
      \<lparr>DeleteObjectInput.ID = [], Name = [], Container = ''c1''\<rparr> stored_net)) = [DELETE ''c1/''] \<and>
   getIdentifier memory_client [] [] ''f.txt'' = Inr ''/f.txt''"
proof -
  have 1: "(''c1'' = []) \<noteq> (([]::string) = [])" by simp
  have 2: "(([]::string) = []) \<noteq> (''f.txt'' = [])" by simp
  show ?thesis
    using degenerate_identifier [OF 1, of memory_client "[]" False stored_net]
      degenerate_identifier [OF 2, of memory_client "[]" False stored_net]
    by (simp add: memory_client_def stored_net_def h_Range_def h_Newest_def Sprintf_t_def)
qed



text \<open>
  C7. Marshalling the metadata mapping \<open>{"color": "red"}\<close> gives exactly the header
  \<^verbatim>\<open>X-Object-Meta-color\<close> with the value \<open>red\<close>, and unmarshalling a response with that
  header gives the metadata mapping \<open>{"color": "red"}\<close>. In general, for every create input
  (whose metadata map has distinct keys, as every Go map has; the keys may be any strings),
  whenever the unmarshalling of a response that carries the marshalled headers, one value
  each, returns a descriptor, its metadata is the original mapping; and it does return one
  when no expiry instant is set.
\<close>

theorem metadata_round_trip:
  assumes "distinct (map fst (CreateObjectInput.ObjectMetadata input))"
  shows
    "(\<forall>d. (success \<lparr>Header = Header_of (CreateObject_headers input)\<rparr> object
              :: 'e error + ObjectInfo) = Inr d \<longrightarrow>
          map_of (ObjectInfo.ObjectMetadata d) = map_of (CreateObjectInput.ObjectMetadata input)) \<and>
     (CreateObjectInput.DeleteAt input = 0 \<longrightarrow>
        (\<exists>d. (success \<lparr>Header = Header_of (CreateObject_headers input)\<rparr> object
                 :: 'e error + ObjectInfo) = Inr d)) \<and>
     CreateObject_metadata [(''color'', ''red'')] [] = [(''X-Object-Meta-color'', ''red'')] \<and>
     success_metadata [(''X-Object-Meta-color'', [''red''])] [] = [(''color'', ''red'')]"
proof -
  let ?h = "Header_of (CreateObject_headers input)"
  let ?md = "CreateObjectInput.ObjectMetadata input"
  have dist: "distinct (map fst ?h)"
    by (simp add: distinct_Header_of distinct_CreateObject_headers)
  have meta: "map_of (success_metadata ?h []) = map_of ?md"
  proof
    fix name
    have "map_of (CreateObject_fields input) (h_MetadataPrefix @ name) = None"
      by (simp add: map_of_CreateObject_fields h_defs)
    then have "map_of (CreateObject_headers input) (h_MetadataPrefix @ name) = map_of ?md name"
      by (cases "map_of ?md name") (simp_all add: map_of_CreateObject_headers [OF assms])
    then show "map_of (success_metadata ?h []) name = map_of ?md name"
      by (cases "map_of ?md name")
        (simp_all add: map_of_success_metadata [OF dist] map_of_Header_of)
  qed
  have 1: "\<forall>d. (success \<lparr>Header = ?h\<rparr> object :: 'e error + ObjectInfo) = Inr d \<longrightarrow>
          map_of (ObjectInfo.ObjectMetadata d) = map_of ?md"
  proof (intro allI impI)
    fix d
    assume "(success \<lparr>Header = ?h\<rparr> object :: 'e error + ObjectInfo) = Inr d"
    from success_ObjectMetadata [OF this] meta
    show "map_of (ObjectInfo.ObjectMetadata d) = map_of ?md" by simp
  qed
  have "map_of (CreateObject_headers input) ''Content-Length'' = None"
    by (simp add: map_of_CreateObject_headers [OF assms] map_of_CreateObject_fields h_defs
          HasPrefix_def)
  then have len: "Header_Get ?h h_ContentLength = []"
    by (simp add: Header_Get_Header_of canonical_keys)
  have "map_of (CreateObject_headers input) ''X-Delete-At'' = None"
    if "CreateObjectInput.DeleteAt input = 0"
    using that
    by (simp add: map_of_CreateObject_headers [OF assms] map_of_CreateObject_fields h_defs
          HasPrefix_def)
  then have del: "Header_Get ?h h_DeleteAt = []" if "CreateObjectInput.DeleteAt input = 0"
    using that by (simp add: Header_Get_Header_of canonical_keys)
  have 2: "CreateObjectInput.DeleteAt input = 0 \<longrightarrow>
        (\<exists>d. (success \<lparr>Header = ?h\<rparr> object :: 'e error + ObjectInfo) = Inr d)"
  proof
    assume "CreateObjectInput.DeleteAt input = 0"
    from del [OF this] len
    show "\<exists>d. (success \<lparr>Header = ?h\<rparr> object :: 'e error + ObjectInfo) = Inr d"
      by (intro success_no_numeric) simp_all
  qed
  have 3: "CreateObject_metadata [(''color'', ''red'')] [] = [(''X-Object-Meta-color'', ''red'')]"
    by (simp add: h_MetadataPrefix_def)
  have 4: "success_metadata [(''X-Object-Meta-color'', [''red''])] [] = [(''color'', ''red'')]"
    by (simp add: h_MetadataPrefix_def HasPrefix_def TrimPrefix_def)
  show ?thesis by (intro conjI 1 2 3 4)
qed

theorem metadata_round_trip_witness:
  "\<exists>d. (success
          \<lparr>Header = Header_of
             (CreateObject_headers (create_input\<lparr>ObjectMetadata := [(''color'', ''red'')]\<rparr>))\<rparr>
          ObjectInfo_zero :: unit error + ObjectInfo) = Inr d \<and>
        map_of (ObjectInfo.ObjectMetadata d) ''color'' = Some ''red'' \<and>
        map_of (ObjectInfo.ObjectMetadata d) ''size'' = None"
proof -
  let ?input = "create_input\<lparr>ObjectMetadata := [(''color'', ''red'')]\<rparr>"
  have dist: "distinct (map fst (CreateObjectInput.ObjectMetadata ?input))" by simp
  have zero: "CreateObjectInput.DeleteAt ?input = 0" by (simp add: create_input_def)
  note inst = metadata_round_trip [OF dist, of ObjectInfo_zero]
  from inst zero obtain d where
    d: "(success \<lparr>Header = Header_of (CreateObject_headers ?input)\<rparr> ObjectInfo_zero
          :: unit error + ObjectInfo) = Inr d"
    by blast
  with inst have "map_of (ObjectInfo.ObjectMetadata d) =
      map_of (CreateObjectInput.ObjectMetadata ?input)"
    by blast
  then have "map_of (ObjectInfo.ObjectMetadata d) ''color'' = Some ''red''"
    and "map_of (ObjectInfo.ObjectMetadata d) ''size'' = None"
    by simp_all
  with d show ?thesis by blast
qed





end
